theory Spec2Isabelle
  imports Main "HOL-Library.Sublist" "HOL-Library.AList"
begin

section \<open>JavaScript values and errors\<close>

text \<open>
  The editors keep their documents in \<^verbatim>\<open>localStorage\<close> as JSON text and the
  multi-content editor reads its whole document with \<^verbatim>\<open>JSON.parse\<close>. A parsed value is
  a \<open>json\<close>. Numbers are exact decimals: \<open>JNum n\<close> is the integer \<open>n\<close> and
  \<open>JDec m k\<close> the number \<open>m / 10 ^ k\<close> when it is not an integer; the rounding of doubles
  is not modelled (every number the editors compute with is a \<^verbatim>\<open>Date.now()\<close> reading, an
  integer on which double arithmetic is exact). Reading a property that an object does
  not have gives \<^verbatim>\<open>undefined\<close>, written \<open>None\<close>.
\<close>

datatype json =
    JNull
  | JBool bool
  | JNum int
  | JDec int nat
  | JStr string
  | JArr "json list"
  | JObj "(string \<times> json) list"

datatype js_error =
    SyntaxError string
  | TypeError string
  | Error string
  | Unmodelled string

text \<open>
  \<^verbatim>\<open>v.p\<close>: a \<^verbatim>\<open>TypeError\<close> on \<^verbatim>\<open>null\<close>, the own property of an object, and
  \<^verbatim>\<open>undefined\<close> on every other value (the property names the editors read, \<^verbatim>\<open>kind\<close>,
  \<^verbatim>\<open>data\<close>, \<^verbatim>\<open>text\<close> and \<^verbatim>\<open>lastModified\<close>, are on no prototype).
\<close>

fun get_prop :: "json \<Rightarrow> string \<Rightarrow> js_error + json option" where
  "get_prop JNull p = Inl (TypeError (''Cannot read properties of null (reading '' @ p @ '')''))"
| "get_prop (JObj al) p = Inr (map_of al p)"
| "get_prop _ p = Inr None"

text \<open>\<^verbatim>\<open>v?.p\<close>: as \<^verbatim>\<open>v.p\<close>, but \<^verbatim>\<open>undefined\<close> on \<^verbatim>\<open>null\<close>.\<close>

fun get_prop_opt :: "json \<Rightarrow> string \<Rightarrow> json option" where
  "get_prop_opt (JObj al) p = map_of al p"
| "get_prop_opt _ p = None"

text \<open>Truthiness, as \<^verbatim>\<open>||\<close> and \<^verbatim>\<open>if\<close> test it.\<close>

fun truthy :: "json option \<Rightarrow> bool" where
  "truthy None = False"
| "truthy (Some JNull) = False"
| "truthy (Some (JBool b)) = b"
| "truthy (Some (JNum n)) = (n \<noteq> 0)"
| "truthy (Some (JDec m k)) = True"
| "truthy (Some (JStr s)) = (s \<noteq> [])"
| "truthy (Some (JArr _)) = True"
| "truthy (Some (JObj _)) = True"

subsection \<open>The JSON capability\<close>

text \<open>
  \<^verbatim>\<open>JSON.parse\<close> and \<^verbatim>\<open>JSON.stringify\<close> belong to the platform. The editors are
  modelled over any pair of them: \<open>parse\<close> returns the parsed value or the message of
  the \<^verbatim>\<open>SyntaxError\<close> it throws.
\<close>

record JSON_api =
  parse :: "string \<Rightarrow> string + json"
  stringify :: "json \<Rightarrow> string"

subsection \<open>A reference parser and serialiser\<close>

text \<open>
  To run the editors on concrete texts, \<open>JSON_parse\<close> parses JSON whose strings use
  the escapes \<^verbatim>\<open>\" \\ \/ \b \f \n \r \t\<close>; a text with a \<^verbatim>\<open>\u\<close> escape is outside this
  fragment and no closed statement below uses one. A repeated key keeps its last value,
  as in JavaScript. \<open>JSON_stringify\<close> writes a number that is not an integer in plain
  decimal notation.
\<close>

definition is_ws :: "char \<Rightarrow> bool" where
  "is_ws c \<longleftrightarrow> c = CHR '' '' \<or> c = CHR 0x0A \<or> c = CHR 0x0D \<or> c = CHR 0x09"

definition skip_ws :: "string \<Rightarrow> string" where
  "skip_ws s = dropWhile is_ws s"

definition is_digit :: "char \<Rightarrow> bool" where
  "is_digit c \<longleftrightarrow> c \<in> set ''0123456789''"

definition digit_val :: "char \<Rightarrow> int" where
  "digit_val c = int (of_char c) - 48"

definition digits_val :: "string \<Rightarrow> int" where
  "digits_val ds = foldl (\<lambda>a c. 10 * a + digit_val c) 0 ds"

text \<open>
  \<open>decimal m e\<close> is the number \<open>m * 10 ^ e\<close>: a \<open>JNum\<close> when it is an integer, and
  otherwise the \<open>JDec\<close> with the fewest decimals.
\<close>

fun normalise :: "int \<Rightarrow> nat \<Rightarrow> json" where
  "normalise m 0 = JNum m"
| "normalise m (Suc k) = (if m mod 10 = 0 then normalise (m div 10) k else JDec m (Suc k))"

definition decimal :: "int \<Rightarrow> int \<Rightarrow> json" where
  "decimal m e = (if 0 \<le> e then JNum (m * 10 ^ nat e) else normalise m (nat (- e)))"

definition parse_number :: "string \<Rightarrow> (json \<times> string) option" where
  "parse_number s =
     (let neg = prefix ''-'' s;
          r = (if neg then tl s else s);
          ds = takeWhile is_digit r;
          r1 = dropWhile is_digit r;
          has_frac = prefix ''.'' r1;
          fs = (if has_frac then takeWhile is_digit (tl r1) else []);
          r2 = (if has_frac then dropWhile is_digit (tl r1) else r1);
          has_exp = (prefix ''e'' r2 \<or> prefix ''E'' r2);
          r3 = (if has_exp then tl r2 else r2);
          eneg = (has_exp \<and> prefix ''-'' r3);
          r4 = (if has_exp \<and> (prefix ''-'' r3 \<or> prefix ''+'' r3) then tl r3 else r3);
          es = (if has_exp then takeWhile is_digit r4 else []);
          r5 = (if has_exp then dropWhile is_digit r4 else r2);
          m = (if neg then - digits_val (ds @ fs) else digits_val (ds @ fs));
          e = (if eneg then - digits_val es else digits_val es) - int (length fs)
      in if ds = [] \<or> (1 < length ds \<and> hd ds = CHR ''0'') then None
         else if has_frac \<and> fs = [] then None
         else if has_exp \<and> es = [] then None
         else Some (decimal m e, r5))"

definition unescape :: "char \<Rightarrow> char option" where
  "unescape e =
     (if e = CHR 0x22 then Some (CHR 0x22)
      else if e = CHR 0x5C then Some (CHR 0x5C)
      else if e = CHR ''/'' then Some (CHR ''/'')
      else if e = CHR ''b'' then Some (CHR 0x08)
      else if e = CHR ''f'' then Some (CHR 0x0C)
      else if e = CHR ''n'' then Some (CHR 0x0A)
      else if e = CHR ''r'' then Some (CHR 0x0D)
      else if e = CHR ''t'' then Some (CHR 0x09)
      else None)"

text \<open>The characters of a string literal, after its opening quote.\<close>

fun parse_chars :: "string \<Rightarrow> (string \<times> string) option" where
  "parse_chars [] = None"
| "parse_chars [c] = (if c = CHR 0x22 then Some ([], []) else None)"
| "parse_chars (c # e # r) =
     (if c = CHR 0x22 then Some ([], e # r)
      else if c = CHR 0x5C then
        (case unescape e of
           None \<Rightarrow> None
         | Some ch \<Rightarrow> map_option (apfst ((#) ch)) (parse_chars r))
      else if (of_char c :: nat) < 32 then None
      else map_option (apfst ((#) c)) (parse_chars (e # r)))"

definition obj_of_members :: "(string \<times> json) list \<Rightarrow> (string \<times> json) list" where
  "obj_of_members ms = foldl (\<lambda>al (k, v). AList.update k v al) [] ms"

fun parse_value :: "nat \<Rightarrow> string \<Rightarrow> (json \<times> string) option"
and parse_elements :: "nat \<Rightarrow> string \<Rightarrow> (json list \<times> string) option"
and parse_members :: "nat \<Rightarrow> string \<Rightarrow> ((string \<times> json) list \<times> string) option" where
  "parse_value 0 s = None"
| "parse_value (Suc n) s =
     (let t = skip_ws s in
      if prefix ''null'' t then Some (JNull, drop 4 t)
      else if prefix ''true'' t then Some (JBool True, drop 4 t)
      else if prefix ''false'' t then Some (JBool False, drop 5 t)
      else if prefix [CHR 0x22] t then
        (case parse_chars (tl t) of
           None \<Rightarrow> None
         | Some (str, r) \<Rightarrow> Some (JStr str, r))
      else if prefix ''['' t then
        (if prefix '']'' (skip_ws (tl t)) then Some (JArr [], tl (skip_ws (tl t)))
         else map_option (apfst JArr) (parse_elements n (tl t)))
      else if prefix ''{'' t then
        (if prefix ''}'' (skip_ws (tl t)) then Some (JObj [], tl (skip_ws (tl t)))
         else map_option (apfst (\<lambda>ms. JObj (obj_of_members ms))) (parse_members n (tl t)))
      else parse_number t)"
| "parse_elements 0 s = None"
| "parse_elements (Suc n) s =
     (case parse_value n s of
        None \<Rightarrow> None
      | Some (v, r) \<Rightarrow>
          (let t = skip_ws r in
           if prefix '','' t then map_option (apfst ((#) v)) (parse_elements n (tl t))
           else if prefix '']'' t then Some ([v], tl t)
           else None))"
| "parse_members 0 s = None"
| "parse_members (Suc n) s =
     (let t = skip_ws s in
      if prefix [CHR 0x22] t then
        (case parse_chars (tl t) of
           None \<Rightarrow> None
         | Some (k, r) \<Rightarrow>
             (if prefix '':'' (skip_ws r) then
                (case parse_value n (tl (skip_ws r)) of
                   None \<Rightarrow> None
                 | Some (v, r2) \<Rightarrow>
                     (let t3 = skip_ws r2 in
                      if prefix '','' t3 then
                        map_option (apfst ((#) (k, v))) (parse_members n (tl t3))
                      else if prefix ''}'' t3 then Some ([(k, v)], tl t3)
                      else None))
              else None))
      else None)"

definition JSON_parse :: "string \<Rightarrow> string + json" where
  "JSON_parse s =
     (case parse_value (2 * length s + 2) s of
        None \<Rightarrow> Inl ''Unexpected token or end of JSON input''
      | Some (v, r) \<Rightarrow>
          (if skip_ws r = [] then Inr v
           else Inl ''Unexpected non-whitespace character after JSON''))"

fun show_nat :: "nat \<Rightarrow> string" where
  "show_nat n =
     (if n < 10 then [char_of (48 + n)]
      else show_nat (n div 10) @ [char_of (48 + n mod 10)])"

definition show_int :: "int \<Rightarrow> string" where
  "show_int i = (if i < 0 then ''-'' @ show_nat (nat (- i)) else show_nat (nat i))"

definition show_decimal :: "int \<Rightarrow> nat \<Rightarrow> string" where
  "show_decimal m k =
     (let ds = show_nat (nat \<bar>m\<bar>);
          padded = replicate (Suc k - length ds) CHR ''0'' @ ds
      in (if m < 0 then ''-'' else []) @
         take (length padded - k) padded @ ''.'' @ drop (length padded - k) padded)"

definition escape_char :: "char \<Rightarrow> string" where
  "escape_char c =
     (if c = CHR 0x22 then [CHR 0x5C, CHR 0x22]
      else if c = CHR 0x5C then [CHR 0x5C, CHR 0x5C]
      else if c = CHR 0x08 then [CHR 0x5C, CHR ''b'']
      else if c = CHR 0x0C then [CHR 0x5C, CHR ''f'']
      else if c = CHR 0x0A then [CHR 0x5C, CHR ''n'']
      else if c = CHR 0x0D then [CHR 0x5C, CHR ''r'']
      else if c = CHR 0x09 then [CHR 0x5C, CHR ''t'']
      else [c])"

definition quote :: "string \<Rightarrow> string" where
  "quote s = [CHR 0x22] @ concat (map escape_char s) @ [CHR 0x22]"

fun commas :: "string list \<Rightarrow> string" where
  "commas [] = []"
| "commas [x] = x"
| "commas (x # y # ys) = x @ '','' @ commas (y # ys)"

fun JSON_stringify :: "json \<Rightarrow> string" where
  "JSON_stringify JNull = ''null''"
| "JSON_stringify (JBool b) = (if b then ''true'' else ''false'')"
| "JSON_stringify (JNum n) = show_int n"
| "JSON_stringify (JDec m k) = show_decimal m k"
| "JSON_stringify (JStr s) = quote s"
| "JSON_stringify (JArr vs) = ''['' @ commas (map JSON_stringify vs) @ '']''"
| "JSON_stringify (JObj al) =
     ''{'' @ commas (map (\<lambda>kv. quote (fst kv) @ '':'' @ JSON_stringify (snd kv)) al) @ ''}''"

definition JSON :: JSON_api where
  "JSON = \<lparr>parse = JSON_parse, stringify = JSON_stringify\<rparr>"


section \<open>The document store: \<^verbatim>\<open>localStorage\<close>\<close>

text \<open>
  \<^verbatim>\<open>localStorage\<close> is a list of key/value pairs with distinct keys. The browser
  chooses the order in which \<^verbatim>\<open>key(i)\<close> enumerates them; it is the order of the list,
  and the model takes the order of insertion. \<^verbatim>\<open>setItem\<close> overwrites the value of a key
  already present, in place, and appends a new key; \<^verbatim>\<open>removeItem\<close> of an absent key
  does nothing.
\<close>

type_synonym storage = "(string \<times> string) list"

definition getItem :: "storage \<Rightarrow> string \<Rightarrow> string option" where
  "getItem ls k = map_of ls k"

definition setItem :: "storage \<Rightarrow> string \<Rightarrow> string \<Rightarrow> storage" where
  "setItem ls k v = AList.update k v ls"


text \<open>
  Three editors have a file list: \<^verbatim>\<open>MarkdownEditor\<close> (the one with the list of saved
  files), \<^verbatim>\<open>EChartsEditor\<close> and \<^verbatim>\<open>MultiContentEditor\<close>. Their storage code is the same
  text up to \<^verbatim>\<open>BASE_STORAGE_KEY\<close>, the comparator of the listing and the default
  content, so it is modelled once, with the editor as a parameter. They keep their
  documents under the keys \<^verbatim>\<open>`${BASE_STORAGE_KEY}-${filename}`\<close> and the name of the
  document last used under \<^verbatim>\<open>`${BASE_STORAGE_KEY}-last-filename`\<close>. The single-file
  markdown editor of \<^verbatim>\<open>MarkdownEditor.js\<close> uses the prefix of \<^verbatim>\<open>MarkdownEditor\<close>.
\<close>

datatype editor_kind = MarkdownEditor | EChartsEditor | MultiContentEditor

fun BASE_STORAGE_KEY :: "editor_kind \<Rightarrow> string" where
  "BASE_STORAGE_KEY MarkdownEditor = ''markdown-editor-content''"
| "BASE_STORAGE_KEY EChartsEditor = ''echarts-editor-content''"
| "BASE_STORAGE_KEY MultiContentEditor = ''multi-content-editor''"

definition doc_key :: "string \<Rightarrow> string \<Rightarrow> string" where
  "doc_key base filename = base @ ''-'' @ filename"

definition last_filename_key :: "string \<Rightarrow> string" where
  "last_filename_key base = base @ ''-last-filename''"

text \<open>\<^verbatim>\<open>localStorage.getItem(`${BASE_STORAGE_KEY}-last-filename`) || 'untitled'\<close>\<close>

definition initial_filename :: "string \<Rightarrow> storage \<Rightarrow> string" where
  "initial_filename base ls =
     (case getItem ls (last_filename_key base) of
        None \<Rightarrow> ''untitled''
      | Some n \<Rightarrow> if n = [] then ''untitled'' else n)"

text \<open>The object \<^verbatim>\<open>{ text: ..., lastModified: Date.now() }\<close> that a save serialises.\<close>

definition content_record :: "string \<Rightarrow> int \<Rightarrow> json" where
  "content_record text now = JObj [(''text'', JStr text), (''lastModified'', JNum now)]"

subsection \<open>Listing the saved documents\<close>

record saved_file =
  name :: string
  lastModified :: int

text \<open>\<^verbatim>\<open>s.replace(pat, rep)\<close> with a string pattern: the first occurrence only.\<close>

fun js_replace :: "string \<Rightarrow> string \<Rightarrow> string \<Rightarrow> string" where
  "js_replace pat rep [] = (if pat = [] then rep else [])"
| "js_replace pat rep (c # cs) =
     (if prefix pat (c # cs) then rep @ drop (length pat) (c # cs)
      else c # js_replace pat rep cs)"

text \<open>
  \<^verbatim>\<open>key?.startsWith(BASE_STORAGE_KEY) && !key.endsWith('last-filename')\<close>: the keys
  that \<^verbatim>\<open>loadSavedFiles\<close> lists.
\<close>

definition listed :: "string \<Rightarrow> string \<Rightarrow> bool" where
  "listed base key \<longleftrightarrow> prefix base key \<and> \<not> suffix ''last-filename'' key"

text \<open>
  \<^verbatim>\<open>JSON.parse(content)?.lastModified || Date.now()\<close>. \<^verbatim>\<open>JSON.parse\<close> throws a
  \<^verbatim>\<open>SyntaxError\<close> on a payload that is not JSON, and nothing in \<^verbatim>\<open>loadSavedFiles\<close>
  catches it. A \<^verbatim>\<open>null\<close> content is parsed as the text \<^verbatim>\<open>null\<close>. The date of a listed
  file is an integer in this model: a payload whose \<^verbatim>\<open>lastModified\<close> is truthy and not
  an integer (the editors write none) is reported as \<open>Unmodelled\<close>.
\<close>

definition read_lastModified :: "JSON_api \<Rightarrow> int \<Rightarrow> string option \<Rightarrow> js_error + int" where
  "read_lastModified J now content =
     (case parse J (case content of None \<Rightarrow> ''null'' | Some c \<Rightarrow> c) of
        Inl msg \<Rightarrow> Inl (SyntaxError msg)
      | Inr v \<Rightarrow>
          (case get_prop_opt v ''lastModified'' of
             Some (JNum n) \<Rightarrow> Inr (if n \<noteq> 0 then n else now)
           | lm \<Rightarrow>
               if truthy lm then Inl (Unmodelled ''lastModified is not an integer'')
               else Inr now))"

text \<open>
  The loop of \<^verbatim>\<open>loadSavedFiles\<close> over \<^verbatim>\<open>localStorage.key(i)\<close>: \<open>keys\<close> are the keys still
  to visit, \<open>ls\<close> the whole store. The first payload that throws ends the loop.
\<close>

fun collect_files ::
  "JSON_api \<Rightarrow> string \<Rightarrow> int \<Rightarrow> storage \<Rightarrow> string list \<Rightarrow> js_error + saved_file list" where
  "collect_files J base now ls [] = Inr []"
| "collect_files J base now ls (key # keys) =
     (if listed base key then
        (case read_lastModified J now (getItem ls key) of
           Inl e \<Rightarrow> Inl e
         | Inr t \<Rightarrow>
             (case collect_files J base now ls keys of
                Inl e \<Rightarrow> Inl e
              | Inr files \<Rightarrow>
                  Inr (\<lparr>name = js_replace (base @ ''-'') [] key, lastModified = t\<rparr> # files)))
      else collect_files J base now ls keys)"

text \<open>
  \<^verbatim>\<open>Array.prototype.sort(cmp)\<close>: a stable sort in which \<open>a\<close> goes after \<open>b\<close> when
  \<^verbatim>\<open>cmp(a, b) > 0\<close>. The comparator's result is a number or \<^verbatim>\<open>NaN\<close> (\<open>None\<close>), and
  \<^verbatim>\<open>NaN\<close> counts as \<open>0\<close>. For a consistent comparator every stable sort gives the same
  list; this one inserts from the right.
\<close>

fun positive :: "int option \<Rightarrow> bool" where
  "positive None = False"
| "positive (Some d) = (0 < d)"

fun insert_cmp :: "('a \<Rightarrow> 'a \<Rightarrow> int option) \<Rightarrow> 'a \<Rightarrow> 'a list \<Rightarrow> 'a list" where
  "insert_cmp cmp x [] = [x]"
| "insert_cmp cmp x (y # ys) =
     (if positive (cmp x y) then y # insert_cmp cmp x ys else x # y # ys)"

definition js_sort :: "('a \<Rightarrow> 'a \<Rightarrow> int option) \<Rightarrow> 'a list \<Rightarrow> 'a list" where
  "js_sort cmp xs = foldr (insert_cmp cmp) xs []"

text \<open>\<^verbatim>\<open>(a, b) => b.lastModified - a.lastModified\<close>\<close>

definition by_lastModified :: "saved_file \<Rightarrow> saved_file \<Rightarrow> int option" where
  "by_lastModified a b = Some (lastModified b - lastModified a)"

text \<open>
  \<^verbatim>\<open>(a, b) => b.filename - a.filename\<close>, the comparator of the markdown editor: the
  listed objects are \<^verbatim>\<open>{ name, lastModified }\<close>, so both operands are \<^verbatim>\<open>undefined\<close> and
  the difference is \<^verbatim>\<open>NaN\<close>.
\<close>

definition by_filename :: "saved_file \<Rightarrow> saved_file \<Rightarrow> int option" where
  "by_filename a b = None"

text \<open>
  \<^verbatim>\<open>loadSavedFiles\<close>. The markdown editor sorts with \<^verbatim>\<open>b.filename - a.filename\<close>, the other
  two with \<^verbatim>\<open>b.lastModified - a.lastModified\<close>.
\<close>

fun comparator :: "editor_kind \<Rightarrow> saved_file \<Rightarrow> saved_file \<Rightarrow> int option" where
  "comparator MarkdownEditor = by_filename"
| "comparator EChartsEditor = by_lastModified"
| "comparator MultiContentEditor = by_lastModified"

definition loadSavedFiles ::
  "JSON_api \<Rightarrow> editor_kind \<Rightarrow> int \<Rightarrow> storage \<Rightarrow> js_error + saved_file list" where
  "loadSavedFiles J ed now ls =
     (case collect_files J (BASE_STORAGE_KEY ed) now ls (map fst ls) of
        Inl e \<Rightarrow> Inl e
      | Inr files \<Rightarrow> Inr (js_sort (comparator ed) files))"

text \<open>The order the listing is meant to have: the most recent file first.\<close>

definition most_recent_first :: "saved_file list \<Rightarrow> bool" where
  "most_recent_first files = sorted_wrt (\<lambda>a b. lastModified b \<le> lastModified a) files"

section \<open>Timers\<close>

text \<open>
  \<^verbatim>\<open>setTimeout\<close> and \<^verbatim>\<open>setInterval\<close> add a pending timer and return its id;
  \<^verbatim>\<open>clearTimeout\<close> and \<^verbatim>\<open>clearInterval\<close> remove it. The editors schedule two callbacks:
  \<^verbatim>\<open>() => setSaveStatus('')\<close> and the body of the auto-save interval.
\<close>

datatype callback = ClearSaveStatus | AutoSaveTick

record timer =
  timer_id :: nat
  due :: int
  period :: "int option"
  callback :: callback

section \<open>The editors with a file list\<close>

text \<open>
  The state that every editor has, and the part of the browser it acts on.
  \<open>codeInput\<close> is the text being edited (\<^verbatim>\<open>markdown\<close> in the markdown editors).
\<close>

record editor_base =
  filename :: string
  codeInput :: string
  saveStatus :: string
  localStorage :: storage
  timers :: "timer list"
  next_timer :: nat

text \<open>
  The editors with a file list add the list and the time of the last edit.
  \<open>autoSaveInterval\<close> is the interval that the cleanup of the auto-save effect will
  clear. The search term and the fullscreen flag touch nothing else and are left out.
\<close>

record editor = editor_base +
  savedFiles :: "saved_file list"
  lastEditTime :: int
  autoSaveInterval :: "nat option"

definition setTimeout ::
  "callback \<Rightarrow> int \<Rightarrow> int \<Rightarrow> 'a editor_base_scheme \<Rightarrow> nat \<times> 'a editor_base_scheme" where
  "setTimeout cb delay now st =
     (next_timer st,
      st\<lparr>timers := timers st @
            [\<lparr>timer_id = next_timer st, due = now + delay, period = None, callback = cb\<rparr>],
         next_timer := Suc (next_timer st)\<rparr>)"


definition clearTimeout :: "nat \<Rightarrow> 'a editor_base_scheme \<Rightarrow> 'a editor_base_scheme" where
  "clearTimeout i st = st\<lparr>timers := filter (\<lambda>t. timer_id t \<noteq> i) (timers st)\<rparr>"


text \<open>
  \<^verbatim>\<open>handleEditorChange\<close>: \<^verbatim>\<open>setCodeInput(e.target.value); setLastEditTime(Date.now())\<close>.
  One event handler reads the clock once.
\<close>

definition handleEditorChange :: "string \<Rightarrow> int \<Rightarrow> 'a editor_scheme \<Rightarrow> 'a editor_scheme" where
  "handleEditorChange v now st = st\<lparr>codeInput := v, lastEditTime := now\<rparr>"

text \<open>
  \<^verbatim>\<open>saveContent\<close>, declared inside the save effect: it writes the document and the last
  used name, reloads the list, shows \<^verbatim>\<open>Saved!\<close>, starts the timer that clears the status
  and returns \<^verbatim>\<open>() => clearTimeout(timer)\<close>, given here as the id of the timer. When the
  reload throws, the two writes have happened: the error comes with the store.
\<close>

definition saveContent ::
  "JSON_api \<Rightarrow> editor_kind \<Rightarrow> int \<Rightarrow> 'a editor_scheme \<Rightarrow>
     (js_error \<times> storage) + (nat \<times> 'a editor_scheme)" where
  "saveContent J ed now st =
     (let ls1 = setItem (localStorage st) (doc_key (BASE_STORAGE_KEY ed) (filename st))
                  (stringify J (content_record (codeInput st) now));
          ls2 = setItem ls1 (last_filename_key (BASE_STORAGE_KEY ed)) (filename st)
      in case loadSavedFiles J ed now ls2 of
           Inl e \<Rightarrow> Inl (e, ls2)
         | Inr files \<Rightarrow>
             Inr (setTimeout ClearSaveStatus 2000 now
                    (st\<lparr>localStorage := ls2, savedFiles := files, saveStatus := ''Saved!''\<rparr>)))"

text \<open>
  The save effect, run after every change of the text or of the file name. Its body is
  the call \<^verbatim>\<open>saveContent();\<close>: the function that \<^verbatim>\<open>saveContent\<close> returns is dropped and
  the effect itself returns nothing, so it has no cleanup. (After the call the chart
  editor evaluates the text and the markdown editor renders it; this part of their
  effect reads no state that the model keeps and is left out.)
\<close>

definition save_effect ::
  "JSON_api \<Rightarrow> editor_kind \<Rightarrow> int \<Rightarrow> 'a editor_scheme \<Rightarrow> (js_error \<times> storage) + 'a editor_scheme" where
  "save_effect J ed now st =
     (case saveContent J ed now st of
        Inl e \<Rightarrow> Inl e
      | Inr (cleanup, st') \<Rightarrow> Inr st')"


text \<open>
  The callback of the interval. It reads the text, the name and \<^verbatim>\<open>lastEditTime\<close> of the
  render that started the interval; all three are dependencies of the effect, so they
  are those of the current state.
\<close>

definition autoSave_tick ::
  "JSON_api \<Rightarrow> editor_kind \<Rightarrow> int \<Rightarrow> 'a editor_scheme \<Rightarrow> 'a editor_scheme" where
  "autoSave_tick J ed now st =
     (if now - lastEditTime st < 30000 then
        snd (setTimeout ClearSaveStatus 2000 now
               (st\<lparr>localStorage :=
                      setItem (localStorage st) (doc_key (BASE_STORAGE_KEY ed) (filename st))
                        (stringify J (content_record (codeInput st) now)),
                   saveStatus := ''Auto-saved!''\<rparr>))
      else st)"

text \<open>
  A pending timer fires at time \<open>now\<close>: a timeout is spent, an interval is due again one
  period later, and the callback runs.
\<close>

definition fire ::
  "JSON_api \<Rightarrow> editor_kind \<Rightarrow> timer \<Rightarrow> int \<Rightarrow> 'a editor_scheme \<Rightarrow> 'a editor_scheme" where
  "fire J ed t now st =
     (let st1 = st\<lparr>timers :=
                   (case period t of
                      None \<Rightarrow> filter (\<lambda>u. timer_id u \<noteq> timer_id t) (timers st)
                    | Some p \<Rightarrow>
                        map (\<lambda>u. if timer_id u = timer_id t then u\<lparr>due := due u + p\<rparr> else u)
                          (timers st))\<rparr>
      in case callback t of
           ClearSaveStatus \<Rightarrow> st1\<lparr>saveStatus := []\<rparr>
         | AutoSaveTick \<Rightarrow> autoSave_tick J ed now st1)"




section \<open>The single-file markdown editor\<close>

text \<open>
  \<^verbatim>\<open>MarkdownEditor.js\<close>: one document, stored as plain text. \<open>save_cleanup\<close> is the
  cleanup that the last run of its effect returned: the timer to clear.
\<close>

record simple_editor = editor_base +
  html :: string
  save_cleanup :: "nat option"

text \<open>
  Its effect, run after every change of the text or of the name. React first runs the
  cleanup returned by the previous run; this effect does return
  \<^verbatim>\<open>() => clearTimeout(timer)\<close>. \<open>md\<close> is \<^verbatim>\<open>md.render\<close>.
\<close>

definition simple_effect :: "(string \<Rightarrow> string) \<Rightarrow> int \<Rightarrow> simple_editor \<Rightarrow> simple_editor" where
  "simple_effect md now st =
     (let st0 = (case save_cleanup st of None \<Rightarrow> st | Some t \<Rightarrow> clearTimeout t st);
          ls1 = setItem (localStorage st0) (doc_key (BASE_STORAGE_KEY MarkdownEditor) (filename st0))
                  (codeInput st0);
          ls2 = setItem ls1 (last_filename_key (BASE_STORAGE_KEY MarkdownEditor)) (filename st0);
          (t, st1) = setTimeout ClearSaveStatus 2000 now
                       (st0\<lparr>html := md (codeInput st0), localStorage := ls2, saveStatus := ''Saved!''\<rparr>)
      in st1\<lparr>save_cleanup := Some t\<rparr>)"


section \<open>Reading a stored document\<close>

text \<open>
  The text of the document stored under a name, as the editors with a file list read
  it: \<^verbatim>\<open>JSON.parse(savedContent).text\<close>; \<open>None\<close> when there is no entry, or no text in it.
\<close>

definition stored_text :: "JSON_api \<Rightarrow> editor_kind \<Rightarrow> storage \<Rightarrow> string \<Rightarrow> string option" where
  "stored_text J ed ls n =
     (case getItem ls (doc_key (BASE_STORAGE_KEY ed) n) of
        None \<Rightarrow> None
      | Some payload \<Rightarrow>
          (case parse J payload of
             Inl msg \<Rightarrow> None
           | Inr v \<Rightarrow>
               (case get_prop_opt v ''text'' of
                  Some (JStr s) \<Rightarrow> Some s
                | _ \<Rightarrow> None)))"


section \<open>The multi-content editor\<close>

subsection \<open>The chart library\<close>

text \<open>
  ECharts keeps the live chart instances, each bound to the DOM element it was created
  on. A handle is a number; the container of block \<open>i\<close> is the element with id
  \<^verbatim>\<open>chart-i\<close>, named by \<open>i\<close>. \<open>history\<close> records every content the registry has had, the
  latest first. \<^verbatim>\<open>setOption\<close> may throw: \<open>accepts\<close> tells which options the library takes.
\<close>

record multi = editor +
  contentList :: json
  parseError :: string
  charts :: "nat list"
  instances :: "(nat \<times> nat) list"
  next_chart :: nat
  history :: "(nat \<times> nat) list list"
  frames :: "json list"

definition set_instances :: "(nat \<times> nat) list \<Rightarrow> multi \<Rightarrow> multi" where
  "set_instances is st = st\<lparr>instances := is, history := is # history st\<rparr>"

text \<open>\<^verbatim>\<open>chart.dispose()\<close>; disposing a handle twice changes nothing.\<close>

definition dispose :: "nat \<Rightarrow> multi \<Rightarrow> multi" where
  "dispose h st = set_instances (filter (\<lambda>b. fst b \<noteq> h) (instances st)) st"



subsection \<open>The effect that parses the text\<close>

text \<open>
  The charts management effect, run after every change of \<open>codeInput\<close>. It disposes
  the charts of the state, empties the list, and parses the text. On success it commits
  the parsed value as the block list, clears the error and asks for an animation
  frame, whose callback keeps the parsed value. On failure it only sets the error.
\<close>

definition charts_effect :: "JSON_api \<Rightarrow> multi \<Rightarrow> multi" where
  "charts_effect J st =
     (let st1 = (fold dispose (charts st) st)\<lparr>charts := []\<rparr> in
      case parse J (codeInput st1) of
        Inr parsedContent \<Rightarrow>
          st1\<lparr>contentList := parsedContent, parseError := [],
              frames := frames st1 @ [parsedContent]\<rparr>
      | Inl msg \<Rightarrow> st1\<lparr>parseError := ''Invalid configuration: '' @ msg\<rparr>)"

subsection \<open>Rendering the block list\<close>

text \<open>
  What a block renders to: the container of a chart (\<^verbatim>\<open><div id={`chart-${index}`}/>\<close>),
  the HTML of a markdown block, or the red text of the marker
  \<^verbatim>\<open>Unknown content type: {item.kind}\<close>.
\<close>

datatype view = ChartContainer nat | Prose string | RedText string

text \<open>
  The text of a value rendered as a React child: a string or a number is text,
  \<^verbatim>\<open>null\<close>, \<^verbatim>\<open>undefined\<close> and booleans render nothing, an array renders its elements, and
  an object throws.
\<close>

fun child_text :: "json \<Rightarrow> js_error + string"
and children_text :: "json list \<Rightarrow> js_error + string" where
  "child_text JNull = Inr []"
| "child_text (JBool b) = Inr []"
| "child_text (JNum n) = Inr (show_int n)"
| "child_text (JDec m k) = Inr (show_decimal m k)"
| "child_text (JStr s) = Inr s"
| "child_text (JArr vs) = children_text vs"
| "child_text (JObj al) = Inl (Error ''Objects are not valid as a React child'')"
| "children_text [] = Inr []"
| "children_text (v # vs) =
     (case child_text v of
        Inl e \<Rightarrow> Inl e
      | Inr s \<Rightarrow> (case children_text vs of Inl e \<Rightarrow> Inl e | Inr t \<Rightarrow> Inr (s @ t)))"

text \<open>What React shows for \<^verbatim>\<open>{item.kind}\<close>; a missing kind is \<^verbatim>\<open>undefined\<close>.\<close>

definition kind_text :: "json option \<Rightarrow> js_error + string" where
  "kind_text kind = (case kind of None \<Rightarrow> Inr [] | Some k \<Rightarrow> child_text k)"

text \<open>
  One block of \<^verbatim>\<open>contentList.map((item, index) => ...)\<close>. \<open>md\<close> is \<^verbatim>\<open>md.render\<close>, which
  throws on an input that is not a string.
\<close>

definition render_item :: "(string \<Rightarrow> string) \<Rightarrow> nat \<Rightarrow> json \<Rightarrow> js_error + view" where
  "render_item md index item =
     (case get_prop item ''kind'' of
        Inl e \<Rightarrow> Inl e
      | Inr kind \<Rightarrow>
          if kind = Some (JStr ''chart'') then Inr (ChartContainer index)
          else if kind = Some (JStr ''markdown'') then
            (case get_prop_opt item ''data'' of
               None \<Rightarrow> Inl (TypeError ''Cannot read properties of undefined (reading text)'')
             | Some d \<Rightarrow>
                 (case get_prop d ''text'' of
                    Inl e \<Rightarrow> Inl e
                  | Inr (Some (JStr s)) \<Rightarrow> Inr (Prose (md s))
                  | Inr _ \<Rightarrow> Inl (Error ''Input data should be a String'')))
          else
            (case kind_text kind of
               Inl e \<Rightarrow> Inl e
             | Inr s \<Rightarrow> Inr (RedText (''Unknown content type: '' @ s))))"

text \<open>The blocks from index \<open>i\<close> on; the first block that throws ends the rendering.\<close>

fun render_from :: "(string \<Rightarrow> string) \<Rightarrow> nat \<Rightarrow> json list \<Rightarrow> js_error + view list" where
  "render_from md i [] = Inr []"
| "render_from md i (item # items) =
     (case render_item md i item of
        Inl e \<Rightarrow> Inl e
      | Inr v \<Rightarrow>
          (case render_from md (Suc i) items of
             Inl e \<Rightarrow> Inl e
           | Inr vs \<Rightarrow> Inr (v # vs)))"

text \<open>The preview: \<^verbatim>\<open>contentList.map\<close> exists on arrays only.\<close>

definition render_contentList :: "(string \<Rightarrow> string) \<Rightarrow> json \<Rightarrow> js_error + view list" where
  "render_contentList md cl =
     (case cl of
        JArr items \<Rightarrow> render_from md 0 items
      | _ \<Rightarrow> Inl (TypeError ''contentList.map is not a function''))"


subsection \<open>The animation frame that creates the charts\<close>






text \<open>The chart blocks of a document: the positions whose \<^verbatim>\<open>kind\<close> is \<^verbatim>\<open>chart\<close>.\<close>

definition is_chart :: "json \<Rightarrow> bool" where
  "is_chart item \<longleftrightarrow> get_prop_opt item ''kind'' = Some (JStr ''chart'')"

fun chart_indices_from :: "nat \<Rightarrow> json list \<Rightarrow> nat list" where
  "chart_indices_from i [] = []"
| "chart_indices_from i (item # items) =
     (if is_chart item then i # chart_indices_from (Suc i) items
      else chart_indices_from (Suc i) items)"

definition chart_indices :: "json list \<Rightarrow> nat list" where
  "chart_indices items = chart_indices_from 0 items"

text \<open>
  In the words of the specification, the input of \<open>parse\<close> is a list of block records,
  each carrying a \<^verbatim>\<open>kind\<close> and a \<^verbatim>\<open>data\<close> payload.
\<close>

definition spec_block_record :: "json \<Rightarrow> bool" where
  "spec_block_record v \<longleftrightarrow>
     (case v of
        JObj al \<Rightarrow> map_of al ''kind'' \<noteq> None \<and> map_of al ''data'' \<noteq> None
      | _ \<Rightarrow> False)"

definition spec_block_list :: "json \<Rightarrow> bool" where
  "spec_block_list v \<longleftrightarrow> (case v of JArr items \<Rightarrow> list_all spec_block_record items | _ \<Rightarrow> False)"

section \<open>The first render\<close>

text \<open>The content of a new document: \<^verbatim>\<open>defaultContent\<close>, \<^verbatim>\<open>defaultOptions\<close>, or nothing.\<close>

fun defaultContent :: "editor_kind \<Rightarrow> string" where
  "defaultContent MarkdownEditor = []"
| "defaultContent EChartsEditor =
     ''{\<newline>  xAxis: {},\<newline>  yAxis: {},\<newline>  series: [{\<newline>    symbolSize: 20,\<newline>    data: [[10.0, 8.04], [8.07, 6.95]],\<newline>    type: 'scatter'\<newline>  }]\<newline>}''"
| "defaultContent MultiContentEditor =
     ''[\<newline>  {\<newline>    \"kind\": \"chart\",\<newline>    \"data\": {\<newline>      \"xAxis\": {},\<newline>      \"yAxis\": {},\<newline>      \"series\": [{\<newline>        \"symbolSize\": 20,\<newline>        \"data\": [[10.0, 8.04], [8.07, 6.95]],\<newline>        \"type\": \"scatter\"\<newline>      }]\<newline>    }\<newline>  },\<newline>  {\<newline>    \"kind\": \"markdown\",\<newline>    \"data\": {\<newline>      \"text\": \"## Analysis'' @ [CHR 0x5C] @ ''nThis scatter plot shows...\"\<newline>    }\<newline>  }\<newline>]''"

text \<open>
  The initial text: \<^verbatim>\<open>parsed.text || defaultContent\<close> of the stored document, and the
  default when there is none or when reading it throws. A stored \<^verbatim>\<open>text\<close> that is truthy
  and not a string (the editors write none) is reported as \<open>Unmodelled\<close>.
\<close>

definition initial_codeInput ::
  "JSON_api \<Rightarrow> editor_kind \<Rightarrow> storage \<Rightarrow> string \<Rightarrow> js_error + string" where
  "initial_codeInput J ed ls fname =
     (case getItem ls (doc_key (BASE_STORAGE_KEY ed) fname) of
        None \<Rightarrow> Inr (defaultContent ed)
      | Some savedContent \<Rightarrow>
          if savedContent = [] then Inr (defaultContent ed)
          else
            (case parse J savedContent of
               Inl msg \<Rightarrow> Inr (defaultContent ed)
             | Inr parsed \<Rightarrow>
                 (case get_prop parsed ''text'' of
                    Inl e \<Rightarrow> Inr (defaultContent ed)
                  | Inr (Some (JStr s)) \<Rightarrow> Inr (if s = [] then defaultContent ed else s)
                  | Inr t \<Rightarrow>
                      if truthy t then Inl (Unmodelled ''text is not a string'')
                      else Inr (defaultContent ed))))"

text \<open>The state of the first render of the multi-content editor, before its effects.\<close>

definition MultiContentEditor_mount :: "JSON_api \<Rightarrow> int \<Rightarrow> storage \<Rightarrow> js_error + multi" where
  "MultiContentEditor_mount J now ls =
     (let fname = initial_filename (BASE_STORAGE_KEY MultiContentEditor) ls in
      case initial_codeInput J MultiContentEditor ls fname of
        Inl e \<Rightarrow> Inl e
      | Inr text \<Rightarrow>
          Inr \<lparr>filename = fname, codeInput = text, saveStatus = [], localStorage = ls,
               timers = [], next_timer = 0, savedFiles = [], lastEditTime = now,
               autoSaveInterval = None, contentList = JArr [], parseError = [], charts = [],
               instances = [], next_chart = 0, history = [], frames = []\<rparr>)"

text \<open>The same for the markdown editor with the file list and for the chart editor.\<close>

definition mount :: "JSON_api \<Rightarrow> editor_kind \<Rightarrow> int \<Rightarrow> storage \<Rightarrow> js_error + editor" where
  "mount J ed now ls =
     (let fname = initial_filename (BASE_STORAGE_KEY ed) ls in
      case initial_codeInput J ed ls fname of
        Inl e \<Rightarrow> Inl e
      | Inr text \<Rightarrow>
          Inr \<lparr>filename = fname, codeInput = text, saveStatus = [], localStorage = ls,
               timers = [], next_timer = 0, savedFiles = [], lastEditTime = now,
               autoSaveInterval = None\<rparr>)"


section \<open>Properties\<close>

subsection \<open>The listing of saved documents\<close>

lemma insert_cmp_by_filename: "insert_cmp by_filename x ys = x # ys"
  by (cases ys) (simp_all add: by_filename_def)

lemma js_sort_by_filename: "js_sort by_filename xs = xs"
  by (induction xs) (simp_all add: js_sort_def insert_cmp_by_filename)

lemma set_insert_cmp: "set (insert_cmp cmp x ys) = insert x (set ys)"
  by (induction ys) auto

lemma length_insert_cmp: "length (insert_cmp cmp x ys) = Suc (length ys)"
  by (induction ys) auto

lemma set_js_sort: "set (js_sort cmp xs) = set xs"
  by (induction xs) (simp_all add: js_sort_def set_insert_cmp)

lemma most_recent_first_insert:
  "most_recent_first ys \<Longrightarrow> most_recent_first (insert_cmp by_lastModified x ys)"
  unfolding most_recent_first_def
  by (induction ys) (auto simp: by_lastModified_def set_insert_cmp)

lemma most_recent_first_js_sort: "most_recent_first (js_sort by_lastModified xs)"
proof (induction xs)
  case Nil
  show ?case by (simp add: js_sort_def most_recent_first_def)
next
  case (Cons x xs)
  then show ?case using most_recent_first_insert [of "js_sort by_lastModified xs" x]
    by (simp add: js_sort_def)
qed

lemma loadSavedFiles_most_recent_first:
  "ed \<noteq> MarkdownEditor \<Longrightarrow> loadSavedFiles J ed now ls = Inr files \<Longrightarrow> most_recent_first files"
  by (cases ed) (auto simp: loadSavedFiles_def most_recent_first_js_sort split: sum.splits)

lemma loadSavedFiles_markdown_unsorted:
  "loadSavedFiles J MarkdownEditor now ls =
   collect_files J (BASE_STORAGE_KEY MarkdownEditor) now ls (map fst ls)"
  by (simp add: loadSavedFiles_def js_sort_by_filename split: sum.splits)










text \<open>
  Claim C7. The listing of the multi-content and chart editors is sorted, most recent
  first (\<open>loadSavedFiles_most_recent_first\<close>). The markdown editor compares
  \<^verbatim>\<open>b.filename - a.filename\<close>, which is \<^verbatim>\<open>NaN\<close> for every pair, so its listing keeps the
  order of the store (\<open>loadSavedFiles_markdown_unsorted\<close>): with \<open>x\<close>, \<open>y\<close>, \<open>z\<close> stored
  in this order at times \<open>2000\<close>, \<open>1000\<close>, \<open>3000\<close> it lists \<open>x, y, z\<close> and not \<open>x, z, y\<close>.
\<close>

theorem markdown_listing_keeps_storage_order:
  "loadSavedFiles JSON MarkdownEditor 4000
     [(''markdown-editor-content-x'', JSON_stringify (content_record ''a'' 2000)),
      (''markdown-editor-content-y'', JSON_stringify (content_record ''b'' 1000)),
      (''markdown-editor-content-z'', JSON_stringify (content_record ''c'' 3000))] =
   Inr [\<lparr>name = ''x'', lastModified = 2000\<rparr>,
        \<lparr>name = ''y'', lastModified = 1000\<rparr>,
        \<lparr>name = ''z'', lastModified = 3000\<rparr>]"
  by code_simp

text \<open>
  Claim C6. A listed entry whose payload is not JSON makes \<^verbatim>\<open>JSON.parse\<close> throw inside
  the loop of \<^verbatim>\<open>loadSavedFiles\<close>, and the listing is not produced: neither in the
  multi-content editor, beside a well-formed entry, nor in the markdown editor on the
  plain text that the single-file markdown editor stores under the same prefix.
\<close>

theorem listing_throws_on_unparseable_payload:
  "loadSavedFiles JSON MultiContentEditor 5000
     [(''multi-content-editor-a'', JSON_stringify (content_record ''[]'' 1000)),
      (''multi-content-editor-notes'', ''hello'')] =
   Inl (SyntaxError ''Unexpected token or end of JSON input'') \<and>
   loadSavedFiles JSON MarkdownEditor 5000
     [(''markdown-editor-content-untitled'', ''# Title'')] =
   Inl (SyntaxError ''Unexpected token or end of JSON input'')"
  by code_simp

subsection \<open>The multi-content editor: parsing\<close>

lemma fold_dispose_fields [simp]:
  "codeInput (fold dispose hs st) = codeInput st"
  "contentList (fold dispose hs st) = contentList st"
  "parseError (fold dispose hs st) = parseError st"
  "frames (fold dispose hs st) = frames st"
  "next_chart (fold dispose hs st) = next_chart st"
  by (induction hs arbitrary: st) (simp_all add: dispose_def set_instances_def)


lemma mount_empty:
  "MultiContentEditor_mount JSON 0 [] =
   Inr \<lparr>filename = ''untitled'', codeInput = defaultContent MultiContentEditor, saveStatus = [],
        localStorage = [], timers = [], next_timer = 0, savedFiles = [], lastEditTime = 0,
        autoSaveInterval = None, contentList = JArr [], parseError = [], charts = [],
        instances = [], next_chart = 0, history = [], frames = []\<rparr>"
  by (simp add: MultiContentEditor_mount_def initial_filename_def initial_codeInput_def
      getItem_def Let_def)


text \<open>
  Claim C3, as the code has it. The effect shows no error exactly when \<^verbatim>\<open>JSON.parse\<close>
  accepts the text, whatever the value is: the value becomes the block list and is
  handed to the animation frame. When \<^verbatim>\<open>JSON.parse\<close> throws, there is one error,
  \<^verbatim>\<open>Invalid configuration: \<close> with the message, no block list is produced (the old one
  stays) and no frame is asked for.
\<close>

theorem parse_accepts_every_json_value:
  "(parseError (charts_effect J st) = [] \<longleftrightarrow> \<not> isl (parse J (codeInput st))) \<and>
   (\<forall>v. parse J (codeInput st) = Inr v \<longrightarrow>
      contentList (charts_effect J st) = v \<and> frames (charts_effect J st) = frames st @ [v]) \<and>
   (\<forall>msg. parse J (codeInput st) = Inl msg \<longrightarrow>
      parseError (charts_effect J st) = ''Invalid configuration: '' @ msg \<and>
      contentList (charts_effect J st) = contentList st \<and>
      frames (charts_effect J st) = frames st)"
  by (cases "parse J (codeInput st)") (simp_all add: charts_effect_def Let_def)

theorem parse_accepts_every_json_value_witness:
  "parse JSON ''[]'' = Inr (JArr []) \<and> parse JSON ''[{'' = Inl ''Unexpected token or end of JSON input'' \<and>
   (case MultiContentEditor_mount JSON 0 [] of
      Inl e \<Rightarrow> False
    | Inr st \<Rightarrow>
        contentList (charts_effect JSON (st\<lparr>codeInput := ''[]''\<rparr>)) = JArr [] \<and>
        frames (charts_effect JSON (st\<lparr>codeInput := ''[]''\<rparr>)) = [JArr []] \<and>
        parseError (charts_effect JSON (st\<lparr>codeInput := ''[]''\<rparr>)) = [] \<and>
        parseError (charts_effect JSON (st\<lparr>codeInput := ''[{''\<rparr>)) =
          ''Invalid configuration: Unexpected token or end of JSON input'' \<and>
        frames (charts_effect JSON (st\<lparr>codeInput := ''[{''\<rparr>)) = [])"
proof -
  have p: "parse JSON ''[]'' = Inr (JArr [])"
    by code_simp
  have q: "parse JSON ''[{'' = Inl ''Unexpected token or end of JSON input''"
    by code_simp
  obtain st where st: "MultiContentEditor_mount JSON 0 [] = Inr st"
    "frames st = []" "codeInput (st\<lparr>codeInput := ''[]''\<rparr>) = ''[]''" 
    "codeInput (st\<lparr>codeInput := ''[{''\<rparr>) = ''[{''"
    by (simp add: mount_empty)
  show ?thesis
    using p q st
      parse_accepts_every_json_value [of JSON "st\<lparr>codeInput := ''[]''\<rparr>"]
      parse_accepts_every_json_value [of JSON "st\<lparr>codeInput := ''[{''\<rparr>"]
    by simp
qed

text \<open>
  Claim C3 as stated fails: the text \<^verbatim>\<open>{}\<close> is not a list of block records, and the
  effect accepts it without an error and commits it as the block list.
\<close>

theorem parse_accepts_non_list_counterexample:
  "(case MultiContentEditor_mount JSON 0 [] of
      Inl e \<Rightarrow> False
    | Inr st \<Rightarrow>
        parseError (charts_effect JSON (handleEditorChange ''{}'' 1 st)) = [] \<and>
        contentList (charts_effect JSON (handleEditorChange ''{}'' 1 st)) = JObj [] \<and>
        \<not> spec_block_list (contentList (charts_effect JSON (handleEditorChange ''{}'' 1 st))))"
proof -
  have p: "parse JSON ''{}'' = Inr (JObj [])"
    by code_simp
  show ?thesis
    using p by (simp add: mount_empty charts_effect_def handleEditorChange_def Let_def spec_block_list_def)
qed

subsection \<open>The multi-content editor: rendering\<close>

lemma render_from_Inr:
  "render_from md n items = Inr views \<longleftrightarrow>
   length views = length items \<and> (\<forall>j<length items. render_item md (n + j) (items ! j) = Inr (views ! j))"
proof (induction items arbitrary: n views)
  case Nil
  show ?case by auto
next
  case (Cons item items)
  show ?case
  proof (cases views)
    case Nil
    then show ?thesis by (auto split: sum.splits)
  next
    case (Cons w ws)
    have "(\<forall>j<Suc (length items). render_item md (n + j) ((item # items) ! j) = Inr ((w # ws) ! j)) \<longleftrightarrow>
          render_item md n item = Inr w \<and>
          (\<forall>j<length items. render_item md (Suc n + j) (items ! j) = Inr (ws ! j))"
      by (auto simp: less_Suc_eq_0_disj)
    then show ?thesis
      using Cons.IH [of "Suc n" ws] Cons by (auto split: sum.splits)
  qed
qed

lemma render_from_Inl:
  "render_from md n items = Inl e \<Longrightarrow>
   \<exists>j<length items. render_item md (n + j) (items ! j) = Inl e"
proof (induction items arbitrary: n)
  case Nil
  then show ?case by simp
next
  case (Cons item items)
  show ?case
  proof (cases "render_item md n item")
    case (Inl e')
    with Cons.prems have "render_item md (n + 0) ((item # items) ! 0) = Inl e" by simp
    then show ?thesis by blast
  next
    case (Inr w)
    with Cons.prems have "render_from md (Suc n) items = Inl e"
      by (simp split: sum.splits)
    from Cons.IH [OF this] obtain j where "j < length items"
      "render_item md (Suc n + j) (items ! j) = Inl e" by blast
    then have "Suc j < length (item # items) \<and>
               render_item md (n + Suc j) ((item # items) ! Suc j) = Inl e" by simp
    then show ?thesis by blast
  qed
qed

lemma render_from_total:
  "(\<forall>j<length items. \<not> isl (render_item md (n + j) (items ! j))) \<Longrightarrow>
   \<not> isl (render_from md n items)"
  using render_from_Inl [of md n items] by (cases "render_from md n items") auto

lemma render_unknown_kind:
  assumes "get_prop item ''kind'' = Inr kind"
    and "kind \<noteq> Some (JStr ''markdown'')" and "kind \<noteq> Some (JStr ''chart'')"
    and "kind_text kind = Inr text"
  shows "render_item md i item = Inr (RedText (''Unknown content type: '' @ text))"
  using assms by (simp add: render_item_def)

text \<open>
  Claim C4, as the code has it. Take a block, not \<^verbatim>\<open>null\<close>, whose \<^verbatim>\<open>kind\<close> is neither
  \<^verbatim>\<open>markdown\<close> nor \<^verbatim>\<open>chart\<close> and is a value that React can show (the text of a string or
  of a number, nothing for a missing kind, \<^verbatim>\<open>null\<close> or a boolean, the elements of an
  array of such values). It stays in the committed block list at its position and
  renders, without throwing, the text \<^verbatim>\<open>Unknown content type: \<close> followed by that of the
  kind. It never makes the preview fail: an error of the rendering comes from another
  block, and when every other block renders, the preview has one view per block, each
  the view of its own block, with the marker at the position of the unknown block.
\<close>

theorem unknown_block_is_kept_and_marked:
  assumes "i < length items"
      and "get_prop (items ! i) ''kind'' = Inr kind"
      and "kind \<noteq> Some (JStr ''markdown'')" and "kind \<noteq> Some (JStr ''chart'')"
      and "kind_text kind = Inr text"
  shows "(parse J (codeInput st) = Inr (JArr items) \<longrightarrow>
            contentList (charts_effect J st) = JArr items) \<and>
         render_item md i (items ! i) = Inr (RedText (''Unknown content type: '' @ text)) \<and>
         (\<forall>e. render_contentList md (JArr items) = Inl e \<longrightarrow>
            (\<exists>j<length items. j \<noteq> i \<and> render_item md j (items ! j) = Inl e)) \<and>
         ((\<forall>j<length items. j \<noteq> i \<longrightarrow> \<not> isl (render_item md j (items ! j))) \<longrightarrow>
            (\<exists>views. render_contentList md (JArr items) = Inr views \<and>
               length views = length items \<and>
               views ! i = RedText (''Unknown content type: '' @ text) \<and>
               (\<forall>j<length items. render_item md j (items ! j) = Inr (views ! j))))"
proof -
  have u: "render_item md i (items ! i) = Inr (RedText (''Unknown content type: '' @ text))"
    using assms(2-5) by (rule render_unknown_kind)
  have a: "parse J (codeInput st) = Inr (JArr items) \<longrightarrow>
            contentList (charts_effect J st) = JArr items"
    by (simp add: charts_effect_def Let_def)
  have b: "\<exists>j<length items. j \<noteq> i \<and> render_item md j (items ! j) = Inl e"
    if "render_contentList md (JArr items) = Inl e" for e
  proof -
    from that have "render_from md 0 items = Inl e" by (simp add: render_contentList_def)
    from render_from_Inl [OF this] obtain j where j: "j < length items"
      "render_item md j (items ! j) = Inl e" by auto
    with u have "j \<noteq> i" by auto
    with j show ?thesis by blast
  qed
  have c: "\<exists>views. render_contentList md (JArr items) = Inr views \<and>
               length views = length items \<and>
               views ! i = RedText (''Unknown content type: '' @ text) \<and>
               (\<forall>j<length items. render_item md j (items ! j) = Inr (views ! j))"
    if ok: "\<forall>j<length items. j \<noteq> i \<longrightarrow> \<not> isl (render_item md j (items ! j))"
  proof -
    have "\<forall>j<length items. \<not> isl (render_item md (0 + j) (items ! j))"
      using ok u by (metis add_0 sum.disc(2))
    from render_from_total [OF this] obtain views where v: "render_from md 0 items = Inr views"
      by (cases "render_from md 0 items") auto
    then have l: "length views = length items"
      and n: "\<forall>j<length items. render_item md j (items ! j) = Inr (views ! j)"
      using render_from_Inr [of md 0 items views] by auto
    from n assms(1) u have "views ! i = RedText (''Unknown content type: '' @ text)" by auto
    with v l n show ?thesis by (simp add: render_contentList_def)
  qed
  from u a b c show ?thesis by blast
qed

theorem unknown_block_is_kept_and_marked_witness:
  "(1::nat) < length [JObj [(''kind'', JStr ''markdown''), (''data'', JObj [(''text'', JStr ''# Hi'')])],
                      JObj [(''kind'', JStr ''video''), (''data'', JObj [])],
                      JObj [(''kind'', JStr ''chart''), (''data'', JObj [])]] \<and>
   get_prop (JObj [(''kind'', JStr ''video''), (''data'', JObj [])]) ''kind'' =
     Inr (Some (JStr ''video'')) \<and>
   Some (JStr ''video'') \<noteq> Some (JStr ''markdown'') \<and>
   Some (JStr ''video'') \<noteq> Some (JStr ''chart'') \<and>
   kind_text (Some (JStr ''video'')) = Inr ''video'' \<and>
   render_item id 1 (JObj [(''kind'', JStr ''video''), (''data'', JObj [])]) =
     Inr (RedText ''Unknown content type: video'') \<and>
   (\<exists>views. render_contentList id
        (JArr [JObj [(''kind'', JStr ''markdown''), (''data'', JObj [(''text'', JStr ''# Hi'')])],
               JObj [(''kind'', JStr ''video''), (''data'', JObj [])],
               JObj [(''kind'', JStr ''chart''), (''data'', JObj [])]]) = Inr views \<and>
      length views = 3 \<and> views ! 1 = RedText ''Unknown content type: video'')"
proof -
  let ?items = "[JObj [(''kind'', JStr ''markdown''), (''data'', JObj [(''text'', JStr ''# Hi'')])],
                 JObj [(''kind'', JStr ''video''), (''data'', JObj [])],
                 JObj [(''kind'', JStr ''chart''), (''data'', JObj [])]]"
  have i: "(1::nat) < length ?items" by simp
  have k: "get_prop (?items ! 1) ''kind'' = Inr (Some (JStr ''video''))" by simp
  have n: "Some (JStr ''video'') \<noteq> Some (JStr ''markdown'')"
    "Some (JStr ''video'') \<noteq> Some (JStr ''chart'')" by simp_all
  have x: "kind_text (Some (JStr ''video'')) = Inr ''video''"
    by (simp add: kind_text_def)
  have o: "\<forall>j<length ?items. j \<noteq> 1 \<longrightarrow> \<not> isl (render_item id j (?items ! j))"
    by (simp add: render_item_def less_Suc_eq numeral_3_eq_3)
  note t = unknown_block_is_kept_and_marked [OF i k n x, of JSON st id for st]
  from t have r: "render_item id 1 (?items ! 1) = Inr (RedText (''Unknown content type: '' @ ''video''))"
    by blast
  from t o have "\<exists>views. render_contentList id (JArr ?items) = Inr views \<and>
      length views = length ?items \<and> views ! 1 = RedText (''Unknown content type: '' @ ''video'')"
    by blast
  with i n x r show ?thesis by (simp add: numeral_3_eq_3)
qed

text \<open>
  Claim C4 as stated fails for a kind that React cannot show. The text
  \<^verbatim>\<open>[{"kind":"markdown","data":{"text":"# Hi"}},{"kind":{}}]\<close> parses, the kind of its
  second block is neither \<^verbatim>\<open>markdown\<close> nor \<^verbatim>\<open>chart\<close>, and rendering that block throws, so
  that the preview, with its first block, is not rendered.
\<close>

theorem unknown_kind_object_counterexample:
  "parse JSON ''[{\"kind\":\"markdown\",\"data\":{\"text\":\"# Hi\"}},{\"kind\":{}}]'' =
     Inr (JArr [JObj [(''kind'', JStr ''markdown''), (''data'', JObj [(''text'', JStr ''# Hi'')])],
                JObj [(''kind'', JObj [])]]) \<and>
   render_item id 0 (JObj [(''kind'', JStr ''markdown''), (''data'', JObj [(''text'', JStr ''# Hi'')])]) =
     Inr (Prose ''# Hi'') \<and>
   render_item id 1 (JObj [(''kind'', JObj [])]) =
     Inl (Error ''Objects are not valid as a React child'') \<and>
   render_contentList id
     (JArr [JObj [(''kind'', JStr ''markdown''), (''data'', JObj [(''text'', JStr ''# Hi'')])],
            JObj [(''kind'', JObj [])]]) =
     Inl (Error ''Objects are not valid as a React child'')"
  by code_simp

subsection \<open>The multi-content editor: chart handles\<close>

lemma instances_fold_dispose:
  "instances (fold dispose hs st) = filter (\<lambda>b. fst b \<notin> set hs) (instances st)"
proof (induction hs arbitrary: st)
  case Nil
  show ?case by simp
next
  case (Cons h hs)
  have "filter (\<lambda>b. fst b \<notin> set hs) (filter (\<lambda>b. fst b \<noteq> h) (instances st)) =
        filter (\<lambda>b. fst b \<notin> set (h # hs)) (instances st)"
    by (induction "instances st") auto
  then show ?case using Cons.IH [of "dispose h st"]
    by (simp add: dispose_def set_instances_def)
qed

lemma charts_effect_disposes:
  "instances (charts_effect J st) = filter (\<lambda>b. fst b \<notin> set (charts st)) (instances st)"
  by (simp add: charts_effect_def Let_def instances_fold_dispose split: sum.splits)












lemma chart_indices_from_set:
  "set (chart_indices_from i items) = {i + j |j. j < length items \<and> is_chart (items ! j)}"
proof (induction items arbitrary: i)
  case Nil
  show ?case by simp
next
  case (Cons item items)
  have "{i + j |j. j < Suc (length items) \<and> is_chart ((item # items) ! j)} =
        (if is_chart item then {i} else {}) \<union>
        {Suc i + j |j. j < length items \<and> is_chart (items ! j)}"
  proof -
    have "(\<exists>j. x = i + j \<and> j < Suc (length items) \<and> is_chart ((item # items) ! j)) \<longleftrightarrow>
          (x = i \<and> is_chart item) \<or> (\<exists>j. x = Suc i + j \<and> j < length items \<and> is_chart (items ! j))"
      for x
    proof
      assume "\<exists>j. x = i + j \<and> j < Suc (length items) \<and> is_chart ((item # items) ! j)"
      then obtain j where j: "x = i + j" "j < Suc (length items)" "is_chart ((item # items) ! j)"
        by blast
      show "(x = i \<and> is_chart item) \<or> (\<exists>j. x = Suc i + j \<and> j < length items \<and> is_chart (items ! j))"
      proof (cases j)
        case 0
        with j show ?thesis by simp
      next
        case (Suc j')
        with j have "x = Suc i + j' \<and> j' < length items \<and> is_chart (items ! j')" by simp
        then show ?thesis by blast
      qed
    next
      assume "(x = i \<and> is_chart item) \<or> (\<exists>j. x = Suc i + j \<and> j < length items \<and> is_chart (items ! j))"
      then show "\<exists>j. x = i + j \<and> j < Suc (length items) \<and> is_chart ((item # items) ! j)"
      proof
        assume "x = i \<and> is_chart item"
        then have "x = i + 0 \<and> 0 < Suc (length items) \<and> is_chart ((item # items) ! 0)" by simp
        then show ?thesis by blast
      next
        assume "\<exists>j. x = Suc i + j \<and> j < length items \<and> is_chart (items ! j)"
        then obtain j where "x = Suc i + j" "j < length items" "is_chart (items ! j)" by blast
        then have "x = i + Suc j \<and> Suc j < Suc (length items) \<and> is_chart ((item # items) ! Suc j)"
          by simp
        then show ?thesis by blast
      qed
    qed
    then show ?thesis by auto
  qed
  then show ?case using Cons.IH [of "Suc i"] by auto
qed

lemma chart_indices_positions:
  "set (chart_indices items) = {j. j < length items \<and> is_chart (items ! j)}"
  by (simp add: chart_indices_def chart_indices_from_set)









subsection \<open>Renaming a document\<close>

lemma getItem_setItem: "getItem (setItem ls k v) k' = (if k' = k then Some v else getItem ls k')"
  by (simp add: getItem_def setItem_def update_conv')






lemma stored_text_content_record:
  "getItem ls (doc_key (BASE_STORAGE_KEY ed) n) = Some (stringify J (content_record text t)) \<Longrightarrow>
   parse J (stringify J (content_record text t)) = Inr (content_record text t) \<Longrightarrow>
   stored_text J ed ls n = Some text"
  by (simp add: stored_text_def content_record_def)


lemma saveContent_in_sync:
  assumes "saveContent J ed now st = Inr (t, st')"
    and "filename st \<noteq> ''last-filename''"
    and "parse J (stringify J (content_record (codeInput st) now)) =
           Inr (content_record (codeInput st) now)"
  shows "stored_text J ed (localStorage st') (filename st') = Some (codeInput st')"
proof -
  have k: "doc_key (BASE_STORAGE_KEY ed) (filename st) \<noteq> last_filename_key (BASE_STORAGE_KEY ed)"
    using assms(2) by (simp add: doc_key_def last_filename_key_def)
  from assms(1) have
    "localStorage st' =
       setItem (setItem (localStorage st) (doc_key (BASE_STORAGE_KEY ed) (filename st))
                  (stringify J (content_record (codeInput st) now)))
         (last_filename_key (BASE_STORAGE_KEY ed)) (filename st)"
    and "filename st' = filename st" and "codeInput st' = codeInput st"
    by (auto simp: saveContent_def setTimeout_def Let_def split: sum.splits)
  with k assms(3) show ?thesis
    by (simp add: stored_text_content_record getItem_setItem)
qed

lemma saveContent_last_filename:
  assumes "saveContent J ed now st = Inr (t, st')" and "filename st = ''last-filename''"
  shows "getItem (localStorage st') (doc_key (BASE_STORAGE_KEY ed) (filename st')) =
         Some ''last-filename''"
proof -
  have k: "doc_key (BASE_STORAGE_KEY ed) ''last-filename'' = last_filename_key (BASE_STORAGE_KEY ed)"
    by (simp add: doc_key_def last_filename_key_def)
  from assms(1) have
    "localStorage st' =
       setItem (setItem (localStorage st) (doc_key (BASE_STORAGE_KEY ed) (filename st))
                  (stringify J (content_record (codeInput st) now)))
         (last_filename_key (BASE_STORAGE_KEY ed)) (filename st)"
    and "filename st' = filename st"
    by (auto simp: saveContent_def setTimeout_def Let_def split: sum.splits)
  with k assms(2) show ?thesis
    by (simp add: getItem_setItem)
qed


subsection \<open>Timers\<close>

lemma saveContent_keeps_timers:
  "saveContent J ed now st = Inr (t, st') \<Longrightarrow>
   timers st' = timers st @ [\<lparr>timer_id = t, due = now + 2000, period = None, callback = ClearSaveStatus\<rparr>] \<and>
   t = next_timer st \<and> saveStatus st' = ''Saved!''"
  by (auto simp: saveContent_def setTimeout_def Let_def split: sum.splits)

lemma save_effect_cancels_nothing:
  "save_effect J ed now st = Inr st' \<Longrightarrow> set (timers st) \<subseteq> set (timers st')"
  by (auto simp: save_effect_def dest: saveContent_keeps_timers split: sum.splits prod.splits)

lemma simple_effect_cancels:
  assumes "save_cleanup st = Some t" and "t < next_timer st"
  shows "\<forall>u\<in>set (timers (simple_effect md now st)). timer_id u \<noteq> t"
    and "save_cleanup (simple_effect md now st) = Some (next_timer st)"
  using assms
  by (auto simp: simple_effect_def setTimeout_def clearTimeout_def Let_def split: prod.splits)

text \<open>
  Claim C9. In the multi-content editor (and, by the same code, in the chart editor and
  the markdown editor with the file list) the save effect drops the function that
  would clear the timer, so a second save leaves the first timer pending: after saves
  at times 0 and 1500 both clear timers wait, and the first one fires at 2000 and
  clears the status that the second save has set 500 ms earlier. Only the single-file
  markdown editor cancels the pending timer (\<open>simple_effect_cancels\<close>).
\<close>

theorem stale_clear_timer_fires:
  "(case mount JSON MultiContentEditor 0 [] of
      Inl e \<Rightarrow> False
    | Inr st0 \<Rightarrow>
        (case save_effect JSON MultiContentEditor 0 st0 of
           Inl e \<Rightarrow> False
         | Inr st1 \<Rightarrow>
             (case save_effect JSON MultiContentEditor 1500 (handleEditorChange ''[]'' 1500 st1) of
                Inl e \<Rightarrow> False
              | Inr st2 \<Rightarrow>
                  saveStatus st2 = ''Saved!'' \<and>
                  timers st2 =
                    [\<lparr>timer_id = 0, due = 2000, period = None, callback = ClearSaveStatus\<rparr>,
                     \<lparr>timer_id = 1, due = 3500, period = None, callback = ClearSaveStatus\<rparr>] \<and>
                  saveStatus (fire JSON MultiContentEditor
                     \<lparr>timer_id = 0, due = 2000, period = None, callback = ClearSaveStatus\<rparr> 2000 st2) = [] \<and>
                  timers (fire JSON MultiContentEditor
                     \<lparr>timer_id = 0, due = 2000, period = None, callback = ClearSaveStatus\<rparr> 2000 st2) =
                    [\<lparr>timer_id = 1, due = 3500, period = None, callback = ClearSaveStatus\<rparr>])))"
  by code_simp

lemma autoSave_tick_after_full_period:
  "lastEditTime st \<le> started \<Longrightarrow> started + 30000 \<le> now \<Longrightarrow> autoSave_tick J ed now st = st"
  by (simp add: autoSave_tick_def)






end
